theory Spec2Isabelle
  imports Main "HOL-Library.Word" "HOL-Library.Signed_Division"
begin

unbundle bit_operations_syntax

section \<open>Machine integers of the ESP8266\<close>

text \<open>
  The sketches run on the ESP8266, where \<^verbatim>\<open>unsigned long\<close> and \<^verbatim>\<open>long\<close> are both
  32 bits wide.  Both are modelled as \<open>32 word\<close>: unsigned arithmetic wraps, a cast between
  the two keeps the bits, \<open>sint\<close> reads a value as \<^verbatim>\<open>long\<close> and \<open><s\<close>, \<open>\<le>s\<close> compare
  as \<^verbatim>\<open>long\<close>.
\<close>

type_synonym ulong = "32 word"
type_synonym long = "32 word"

text \<open>Division of two \<^verbatim>\<open>long\<close> values truncates towards zero.\<close>

definition long_div :: "long \<Rightarrow> long \<Rightarrow> long" where
  "long_div a b = word_of_int (sint a sdiv sint b)"

section \<open>Global variables and the GPIO port\<close>

text \<open>
  The state holds the global variables of the sketches and the level of the sixteen GPIO
  pins.  \<open>lastSafetyCheck\<close> exists in the optimized sketch only; the recommended sketch
  never reads or writes it.  Serial output and the character buffers of the optimized
  sketch are not part of the state: a handler returns the response it sends.
\<close>

record state =
  GPO :: "32 word"
  relayState :: bool
  currentTimeout :: ulong
  timeoutActive :: bool
  timeoutStart :: ulong
  moduleStartTime :: ulong
  lastSafetyCheck :: ulong

definition relayPin :: nat where
  "relayPin = 5"

definition SAFETY_REBOOT_INTERVAL :: ulong where
  "SAFETY_REBOOT_INTERVAL = 12 * 60 * 60 * 1000"

definition SAFETY_CHECK_INTERVAL :: ulong where
  "SAFETY_CHECK_INTERVAL = 30 * 60 * 1000"

datatype level = LOW | HIGH

text \<open>
  The relay pin is an output: writing the set register \<^verbatim>\<open>GPOS\<close> raises the pins whose bit
  is 1, writing the clear register \<^verbatim>\<open>GPOC\<close> lowers them, and the input register
  \<^verbatim>\<open>GPI\<close> reads the levels back.  \<^verbatim>\<open>digitalWrite\<close> and \<^verbatim>\<open>digitalRead\<close> of the Arduino core
  are these accesses for one pin.
\<close>

definition write_GPOS :: "32 word \<Rightarrow> state \<Rightarrow> state" where
  "write_GPOS v s = s\<lparr>GPO := GPO s OR v\<rparr>"

definition write_GPOC :: "32 word \<Rightarrow> state \<Rightarrow> state" where
  "write_GPOC v s = s\<lparr>GPO := GPO s AND NOT v\<rparr>"

definition GPI :: "state \<Rightarrow> 32 word" where
  "GPI s = GPO s"

definition digitalWrite :: "nat \<Rightarrow> level \<Rightarrow> state \<Rightarrow> state" where
  "digitalWrite pin v s =
     (case v of HIGH \<Rightarrow> write_GPOS (push_bit pin 1) s
              | LOW \<Rightarrow> write_GPOC (push_bit pin 1) s)"

definition digitalRead :: "nat \<Rightarrow> state \<Rightarrow> level" where
  "digitalRead pin s = (if GPI s AND push_bit pin 1 \<noteq> 0 then HIGH else LOW)"

section \<open>HTTP responses\<close>

record response =
  code :: nat
  headers :: "(string \<times> string) list"
  contentType :: string
  body :: string

definition no_cache :: string where
  "no_cache = ''no-store, no-cache, must-revalidate, max-age=0''"

text \<open>The redirect every page handler answers with (\<^verbatim>\<open>sendRedirect\<close> in the optimized sketch).\<close>

definition sendRedirect :: response where
  "sendRedirect =
     \<lparr>code = 302, headers = [(''Cache-Control'', ''no-store''), (''Location'', ''/'')],
      contentType = ''text/plain'', body = ''''\<rparr>"

definition send_json :: "string \<Rightarrow> response" where
  "send_json json =
     \<lparr>code = 200, headers = [(''Cache-Control'', no_cache)],
      contentType = ''application/json'', body = json\<rparr>"

section \<open>Decimal numbers in strings\<close>

text \<open>
  \<^verbatim>\<open>fastItoa\<close> of the optimized sketch: the digits are produced from the least significant
  one into \<^verbatim>\<open>temp\<close> and copied out in reverse.
\<close>

fun itoa_temp :: "nat \<Rightarrow> string" where
  "itoa_temp v = (if v = 0 then [] else char_of (48 + v mod 10) # itoa_temp (v div 10))"

declare itoa_temp.simps [simp del]

definition fastItoa :: "ulong \<Rightarrow> string" where
  "fastItoa v = (if v = 0 then ''0'' else rev (itoa_temp (unat v)))"

text \<open>
  \<^verbatim>\<open>String(unsigned long)\<close> of the Arduino core, used by the recommended sketch, writes the
  same decimal digits.
\<close>

definition String_ul :: "ulong \<Rightarrow> string" where
  "String_ul v = fastItoa v"

text \<open>
  \<^verbatim>\<open>String::toInt\<close> of the Arduino core is \<^verbatim>\<open>atol\<close> on the characters: white space is
  skipped, an optional sign is read, then decimal digits up to the first other character.
  No digit at all gives 0, and a number outside \<^verbatim>\<open>long\<close> gives the nearest bound.
\<close>

definition isspace :: "char \<Rightarrow> bool" where
  "isspace c = (c = CHR '' '' \<or> (9::nat) \<le> of_char c \<and> of_char c \<le> (13::nat))"

definition isdigit :: "char \<Rightarrow> bool" where
  "isdigit c = ((48::nat) \<le> of_char c \<and> of_char c \<le> (57::nat))"

fun digits_value :: "nat \<Rightarrow> string \<Rightarrow> nat" where
  "digits_value acc [] = acc"
| "digits_value acc (c # cs) =
     (if isdigit c then digits_value (acc * 10 + (of_char c - 48)) cs else acc)"

definition atol :: "string \<Rightarrow> int" where
  "atol str =
     (case dropWhile isspace str of
        [] \<Rightarrow> 0
      | c # cs \<Rightarrow>
          if c = CHR ''-'' then max (- (2 ^ 31)) (- int (digits_value 0 cs))
          else if c = CHR ''+'' then min (2 ^ 31 - 1) (int (digits_value 0 cs))
          else min (2 ^ 31 - 1) (int (digits_value 0 (c # cs))))"

definition toInt :: "string \<Rightarrow> long" where
  "toInt str = word_of_int (atol str)"

section \<open>The recommended sketch\<close>

definition isLampOn :: "state \<Rightarrow> bool" where
  "isLampOn s = (digitalRead relayPin s = LOW)"

definition setLamp :: "bool \<Rightarrow> state \<Rightarrow> state" where
  "setLamp on s = digitalWrite relayPin (if on then LOW else HIGH) s"

text \<open>The three values \<^verbatim>\<open>buildStatusJson\<close> writes, and the text it writes them as.\<close>

definition json_bool :: "bool \<Rightarrow> string" where
  "json_bool b = (if b then ''true'' else ''false'')"

definition status_json :: "bool \<Rightarrow> bool \<Rightarrow> string \<Rightarrow> string" where
  "status_json on active secs =
     ''{'' @ [CHR 0x22] @ ''on'' @ [CHR 0x22] @ '':'' @ json_bool on @ '','' @
     [CHR 0x22] @ ''timeoutActive'' @ [CHR 0x22] @ '':'' @ json_bool active @ '','' @
     [CHR 0x22] @ ''remainingSeconds'' @ [CHR 0x22] @ '':'' @ secs @ ''}''"

text \<open>
  The local variable \<^verbatim>\<open>remainingSeconds\<close> of \<^verbatim>\<open>buildStatusJson\<close>; \<open>now\<close> is what
  \<^verbatim>\<open>millis()\<close> returns.  The subtraction of the two \<^verbatim>\<open>long\<close> values wraps.
\<close>

definition remainingSeconds :: "ulong \<Rightarrow> state \<Rightarrow> ulong" where
  "remainingSeconds now s =
     (let on = isLampOn s in
      if timeoutActive s \<and> on then
        let elapsed = now - timeoutStart s;
            remainingMs = (currentTimeout s * 60000) - elapsed;
            remainingMs = (if remainingMs <s 0 then 0 else remainingMs)
        in long_div remainingMs 1000
      else 0)"

definition buildStatusJson :: "ulong \<Rightarrow> state \<Rightarrow> string" where
  "buildStatusJson now s =
     status_json (isLampOn s) (timeoutActive s) (String_ul (remainingSeconds now s))"

text \<open>
  \<^verbatim>\<open>setup\<close> runs after every reset, on the freshly initialised globals; \<open>gpo\<close> is the level
  of the pins at that moment and \<open>now\<close> the clock when the start time is recorded.
\<close>

definition initial_globals :: "32 word \<Rightarrow> state" where
  "initial_globals gpo =
     \<lparr>GPO = gpo, relayState = False, currentTimeout = 0, timeoutActive = False,
      timeoutStart = 0, moduleStartTime = 0, lastSafetyCheck = 0\<rparr>"

definition setup_sketch :: "32 word \<Rightarrow> ulong \<Rightarrow> state" where
  "setup_sketch gpo now = (digitalWrite relayPin HIGH (initial_globals gpo))\<lparr>moduleStartTime := now\<rparr>"

text \<open>
  The body of \<^verbatim>\<open>loop\<close> after \<^verbatim>\<open>server.handleClient()\<close>.  \<open>now1\<close> is the clock read by the
  expiry check and \<open>now2\<close> the clock read by the reboot check.  The result is the state
  and whether \<^verbatim>\<open>ESP.restart()\<close> was called.
\<close>

definition loop :: "ulong \<Rightarrow> ulong \<Rightarrow> state \<Rightarrow> state \<times> bool" where
  "loop now1 now2 s =
     (let lampOn = isLampOn s;
          s1 = (if timeoutActive s \<and> lampOn \<and> currentTimeout s * 60000 \<le> now1 - timeoutStart s
                then (setLamp False s)\<lparr>relayState := False, timeoutActive := False\<rparr>
                else s);
          s2 = (if timeoutActive s1 \<and> \<not> isLampOn s1
                then s1\<lparr>timeoutActive := False\<rparr>
                else s1)
      in (s2, \<not> isLampOn s2 \<and> SAFETY_REBOOT_INTERVAL \<le> now2 - moduleStartTime s2))"

definition handleOn :: "state \<Rightarrow> state \<times> response" where
  "handleOn s = ((setLamp True s)\<lparr>relayState := True\<rparr>, sendRedirect)"

definition handleOff :: "state \<Rightarrow> state \<times> response" where
  "handleOff s =
     ((setLamp False s)\<lparr>relayState := False, timeoutActive := False, currentTimeout := 0\<rparr>,
      sendRedirect)"

text \<open>
  \<open>arg\<close> is the \<^verbatim>\<open>minutes\<close> argument of the request, \<open>None\<close> when the request has none;
  \<open>now\<close> is the clock read when the timer is started.
\<close>

definition handleTimeout :: "string option \<Rightarrow> ulong \<Rightarrow> state \<Rightarrow> state \<times> response" where
  "handleTimeout arg now s =
     ((case arg of
         None \<Rightarrow> s
       | Some a \<Rightarrow>
           let minutes = toInt a;
               minutes = (if minutes <s 0 then 0 else minutes);
               minutes = (if 720 <s minutes then 720 else minutes)
           in if 0 <s minutes \<and> minutes \<le>s 720 then
                let s1 = (if \<not> isLampOn s then (setLamp True s)\<lparr>relayState := True\<rparr> else s)
                in s1\<lparr>currentTimeout := minutes, timeoutActive := True, timeoutStart := now\<rparr>
              else s\<lparr>timeoutActive := False, currentTimeout := 0\<rparr>),
      sendRedirect)"

definition handleStatus :: "ulong \<Rightarrow> state \<Rightarrow> state \<times> response" where
  "handleStatus now s = (s, send_json (buildStatusJson now s))"

definition handleOnApi :: "ulong \<Rightarrow> state \<Rightarrow> state \<times> response" where
  "handleOnApi now s =
     (let s1 = (setLamp True s)\<lparr>relayState := True\<rparr>
      in (s1, send_json (buildStatusJson now s1)))"

definition handleOffApi :: "ulong \<Rightarrow> state \<Rightarrow> state \<times> response" where
  "handleOffApi now s =
     (let s1 = (setLamp False s)\<lparr>relayState := False, timeoutActive := False, currentTimeout := 0\<rparr>
      in (s1, send_json (buildStatusJson now s1)))"

section \<open>The optimized sketch\<close>

text \<open>
  The functions of the optimized sketch carry the suffix \<open>_opt\<close> where the recommended
  sketch has a function of the same name.  \<^verbatim>\<open>GPIO_READ(pin)\<close> is \<^verbatim>\<open>((GPI >> pin) & 1)\<close>.
\<close>

definition GPIO_READ :: "nat \<Rightarrow> state \<Rightarrow> 32 word" where
  "GPIO_READ pin s = drop_bit pin (GPI s) AND 1"

definition GPIO_SET_HIGH :: "nat \<Rightarrow> state \<Rightarrow> state" where
  "GPIO_SET_HIGH pin s = write_GPOS (push_bit pin 1) s"

definition isLampOn_opt :: "state \<Rightarrow> bool" where
  "isLampOn_opt s = (GPIO_READ 5 s = 0)"

definition setLamp_opt :: "bool \<Rightarrow> state \<Rightarrow> state" where
  "setLamp_opt on s = (if on then write_GPOC (push_bit 5 1) s else write_GPOS (push_bit 5 1) s)"

definition calculateRemainingSeconds :: "ulong \<Rightarrow> state \<Rightarrow> ulong" where
  "calculateRemainingSeconds now s =
     (if \<not> timeoutActive s then 0
      else
        let elapsed = now - timeoutStart s;
            remainingMs = (currentTimeout s * 60000) - elapsed;
            remainingMs = (if remainingMs <s 0 then 0 else remainingMs)
        in long_div remainingMs 1000)"

definition remainingSeconds_opt :: "ulong \<Rightarrow> state \<Rightarrow> ulong" where
  "remainingSeconds_opt now s =
     (let on = isLampOn_opt s in
      if timeoutActive s \<and> on then calculateRemainingSeconds now s else 0)"

definition buildStatusJson_opt :: "ulong \<Rightarrow> state \<Rightarrow> string" where
  "buildStatusJson_opt now s =
     status_json (isLampOn_opt s) (timeoutActive s) (fastItoa (remainingSeconds_opt now s))"

definition setup_opt :: "32 word \<Rightarrow> ulong \<Rightarrow> state" where
  "setup_opt gpo now = (GPIO_SET_HIGH 5 (initial_globals gpo))\<lparr>moduleStartTime := now\<rparr>"

text \<open>
  The body of \<^verbatim>\<open>loop\<close> after \<^verbatim>\<open>server.handleClient()\<close>; the clock is read once, into
  \<^verbatim>\<open>currentMillis\<close>.
\<close>

definition loop_opt :: "ulong \<Rightarrow> state \<Rightarrow> state \<times> bool" where
  "loop_opt currentMillis s =
     (let lampOn = isLampOn_opt s;
          s1 = (if timeoutActive s \<and> lampOn \<and>
                   currentTimeout s * 60000 \<le> currentMillis - timeoutStart s
                then (setLamp_opt False s)\<lparr>relayState := False, timeoutActive := False\<rparr>
                else s);
          s2 = (if timeoutActive s1 \<and> \<not> isLampOn_opt s1
                then s1\<lparr>timeoutActive := False\<rparr>
                else s1)
      in if SAFETY_CHECK_INTERVAL \<le> currentMillis - lastSafetyCheck s2 then
           let s3 = s2\<lparr>lastSafetyCheck := currentMillis\<rparr>
           in (s3, \<not> isLampOn_opt s3 \<and>
                   SAFETY_REBOOT_INTERVAL \<le> currentMillis - moduleStartTime s3)
         else (s2, False))"

definition setLampWithState :: "bool \<Rightarrow> state \<Rightarrow> state" where
  "setLampWithState st s =
     (let s1 = (setLamp_opt st s)\<lparr>relayState := st\<rparr>
      in if \<not> st then s1\<lparr>timeoutActive := False, currentTimeout := 0\<rparr> else s1)"

definition sendJsonResponse :: "ulong \<Rightarrow> state \<Rightarrow> response" where
  "sendJsonResponse now s = send_json (buildStatusJson_opt now s)"

definition handleOn_opt :: "state \<Rightarrow> state \<times> response" where
  "handleOn_opt s = (setLampWithState True s, sendRedirect)"

definition handleOff_opt :: "state \<Rightarrow> state \<times> response" where
  "handleOff_opt s = (setLampWithState False s, sendRedirect)"

definition handleTimeout_opt :: "string option \<Rightarrow> ulong \<Rightarrow> state \<Rightarrow> state \<times> response" where
  "handleTimeout_opt arg now s =
     ((case arg of
         None \<Rightarrow> s
       | Some a \<Rightarrow>
           let minutes = toInt a;
               minutes = (if minutes <s 0 then 0 else minutes);
               minutes = (if 720 <s minutes then 720 else minutes)
           in if 0 <s minutes \<and> minutes \<le>s 720 then
                let s1 = (if \<not> isLampOn_opt s then (setLamp_opt True s)\<lparr>relayState := True\<rparr>
                          else s)
                in s1\<lparr>currentTimeout := minutes, timeoutActive := True, timeoutStart := now\<rparr>
              else s\<lparr>timeoutActive := False, currentTimeout := 0\<rparr>),
      sendRedirect)"

definition handleStatus_opt :: "ulong \<Rightarrow> state \<Rightarrow> state \<times> response" where
  "handleStatus_opt now s = (s, send_json (buildStatusJson_opt now s))"

definition handleOnApi_opt :: "ulong \<Rightarrow> state \<Rightarrow> state \<times> response" where
  "handleOnApi_opt now s =
     (let s1 = setLampWithState True s in (s1, sendJsonResponse now s1))"

definition handleOffApi_opt :: "ulong \<Rightarrow> state \<Rightarrow> state \<times> response" where
  "handleOffApi_opt now s =
     (let s1 = setLampWithState False s in (s1, sendJsonResponse now s1))"

section \<open>Requests and loop iterations\<close>

text \<open>
  The routes registered in \<^verbatim>\<open>setup\<close>, without the HTML page at \<^verbatim>\<open>/\<close>, whose handler
  writes no global variable and no pin.  \<^verbatim>\<open>server.handleClient()\<close> runs the handler of
  the pending request to completion, or does nothing when no request is pending; \<open>now\<close>
  is the clock during the handler.
\<close>

datatype request = GetOn | GetOff | GetTimeout "string option" | GetStatus | GetApiOn | GetApiOff

fun handleClient :: "request option \<Rightarrow> ulong \<Rightarrow> state \<Rightarrow> state \<times> response option" where
  "handleClient None now s = (s, None)"
| "handleClient (Some GetOn) now s = map_prod id Some (handleOn s)"
| "handleClient (Some GetOff) now s = map_prod id Some (handleOff s)"
| "handleClient (Some (GetTimeout arg)) now s = map_prod id Some (handleTimeout arg now s)"
| "handleClient (Some GetStatus) now s = map_prod id Some (handleStatus now s)"
| "handleClient (Some GetApiOn) now s = map_prod id Some (handleOnApi now s)"
| "handleClient (Some GetApiOff) now s = map_prod id Some (handleOffApi now s)"

fun handleClient_opt :: "request option \<Rightarrow> ulong \<Rightarrow> state \<Rightarrow> state \<times> response option" where
  "handleClient_opt None now s = (s, None)"
| "handleClient_opt (Some GetOn) now s = map_prod id Some (handleOn_opt s)"
| "handleClient_opt (Some GetOff) now s = map_prod id Some (handleOff_opt s)"
| "handleClient_opt (Some (GetTimeout arg)) now s =
     map_prod id Some (handleTimeout_opt arg now s)"
| "handleClient_opt (Some GetStatus) now s = map_prod id Some (handleStatus_opt now s)"
| "handleClient_opt (Some GetApiOn) now s = map_prod id Some (handleOnApi_opt now s)"
| "handleClient_opt (Some GetApiOff) now s = map_prod id Some (handleOffApi_opt now s)"

text \<open>
  A run of the device from a state: one entry per iteration of \<^verbatim>\<open>loop\<close>, with the clock of
  that iteration and the request pending in it.  The run reports, for each iteration,
  whether the lamp is on at its end and whether the device restarted, and stops at the
  first restart.
\<close>

fun run :: "(ulong \<times> request option) list \<Rightarrow> state \<Rightarrow> (bool \<times> bool) list" where
  "run [] s = []"
| "run ((now, req) # rest) s =
     (let s1 = fst (handleClient req now s);
          (s2, restart) = loop now now s1
      in (isLampOn s2, restart) # (if restart then [] else run rest s2))"

fun run_opt :: "(ulong \<times> request option) list \<Rightarrow> state \<Rightarrow> (bool \<times> bool) list" where
  "run_opt [] s = []"
| "run_opt ((now, req) # rest) s =
     (let s1 = fst (handleClient_opt req now s);
          (s2, restart) = loop_opt now s1
      in (isLampOn_opt s2, restart) # (if restart then [] else run_opt rest s2))"

text \<open>The invariant of the timer: an active timer has a positive duration.\<close>

definition timer_inv :: "state \<Rightarrow> bool" where
  "timer_inv s = (timeoutActive s \<longrightarrow> 0 < currentTimeout s)"

section \<open>Example states\<close>

text \<open>
  A timer of one minute started at clock 1000 with the lamp on, and the same timer with
  the relay pin found HIGH (the lamp off).
\<close>

definition timer_running :: state where
  "timer_running =
     \<lparr>GPO = 0, relayState = True, currentTimeout = 1, timeoutActive = True,
      timeoutStart = 1000, moduleStartTime = 0, lastSafetyCheck = 0\<rparr>"

definition timer_orphaned :: state where
  "timer_orphaned = timer_running\<lparr>GPO := 32\<rparr>"

text \<open>
  An idle device: the lamp off, no timer, booted at clock 0 and last checked for a safety
  restart at 11 hours 30 minutes.
\<close>

definition lamp_idle :: state where
  "lamp_idle =
     \<lparr>GPO = 32, relayState = False, currentTimeout = 0, timeoutActive = False,
      timeoutStart = 0, moduleStartTime = 0, lastSafetyCheck = 41400000\<rparr>"

section \<open>The range of the timer\<close>

text \<open>
  The window of the specification for the minutes of a timer: a value below 0 counts as 0
  and a value above 720 as 720.
\<close>

definition clamp_0_720 :: "int \<Rightarrow> int" where
  "clamp_0_720 v = max 0 (min 720 v)"

section \<open>The relay pin and the turn-off handlers\<close>

lemma pin5_mask_test: "(w AND push_bit 5 1 \<noteq> 0) = bit (w::32 word) 5"
  using and_exp_eq_0_iff_not_bit [of w 5] by simp

lemma pin5_raised: "bit ((w::32 word) OR push_bit 5 1) 5"
  by (simp add: bit_or_iff bit_push_bit_iff)

lemma pin5_lowered: "\<not> bit ((w::32 word) AND NOT (push_bit 5 1)) 5"
  by (simp add: bit_and_iff bit_not_iff bit_push_bit_iff)

lemma isLampOn_pin: "isLampOn s = (\<not> bit (GPO s) 5)"
  using pin5_mask_test [of "GPO s"]
  by (simp add: isLampOn_def digitalRead_def GPI_def relayPin_def)

lemma isLampOn_opt_pin: "isLampOn_opt s = (\<not> bit (GPO s) 5)"
  by (simp add: isLampOn_opt_def GPIO_READ_def GPI_def and_one_eq bit_iff_odd_drop_bit
      even_iff_mod_2_eq_zero)

lemma setLamp_eq:
  "setLamp on s =
     s\<lparr>GPO := (if on then GPO s AND NOT (push_bit 5 1) else GPO s OR push_bit 5 1)\<rparr>"
  by (simp add: setLamp_def digitalWrite_def write_GPOS_def write_GPOC_def relayPin_def)

lemma setLamp_opt_eq: "setLamp_opt on s = setLamp on s"
  by (simp add: setLamp_eq setLamp_opt_def write_GPOS_def write_GPOC_def)

lemma fastItoa_0: "fastItoa 0 = ''0''"
  by (simp add: fastItoa_def)

lemma remainingSeconds_inactive: "\<not> timeoutActive s \<Longrightarrow> remainingSeconds now s = 0"
  by (simp add: remainingSeconds_def)

lemma remainingSeconds_opt_inactive: "\<not> timeoutActive s \<Longrightarrow> remainingSeconds_opt now s = 0"
  by (simp add: remainingSeconds_opt_def)

lemma fst_handleOff:
  "fst (handleOff s) =
     s\<lparr>GPO := GPO s OR push_bit 5 1, relayState := False, timeoutActive := False,
       currentTimeout := 0\<rparr>"
  by (simp add: handleOff_def setLamp_eq)

lemma fst_handleOffApi: "fst (handleOffApi t s) = fst (handleOff s)"
  by (simp add: handleOffApi_def handleOff_def Let_def)

lemma fst_handleOff_opt: "fst (handleOff_opt s) = fst (handleOff s)"
  by (simp add: handleOff_opt_def handleOff_def setLampWithState_def setLamp_opt_eq Let_def)

lemma fst_handleOffApi_opt: "fst (handleOffApi_opt t s) = fst (handleOff s)"
  by (simp add: handleOffApi_opt_def handleOff_def setLampWithState_def setLamp_opt_eq Let_def)

lemma status_after_off:
  "snd (handleStatus now (fst (handleOff s))) = send_json (status_json False False ''0'')"
  "snd (handleStatus_opt now (fst (handleOff s))) = send_json (status_json False False ''0'')"
  using pin5_raised [of "GPO s"]
  by (simp_all add: fst_handleOff handleStatus_def handleStatus_opt_def
      buildStatusJson_def buildStatusJson_opt_def isLampOn_pin isLampOn_opt_pin
      remainingSeconds_inactive remainingSeconds_opt_inactive String_ul_def fastItoa_0)

section \<open>Turning the lamp off\<close>

text \<open>
  Claim C1.  From every state, each of the four turn-off handlers (\<^verbatim>\<open>/off\<close> and
  \<^verbatim>\<open>/api/off\<close>, in both sketches) drives the relay pin HIGH, so that the lamp reads as
  off, and leaves the timer inactive; the JSON of \<^verbatim>\<open>/api/off\<close> itself and of a
  \<^verbatim>\<open>/status\<close> request that follows, at any clock, reports the lamp off, the timer
  inactive and no remaining seconds.
\<close>

theorem turn_off_cancels_timer:
  "bit (GPO (fst (handleOff s))) 5 \<and> \<not> isLampOn (fst (handleOff s)) \<and>
   \<not> timeoutActive (fst (handleOff s)) \<and>
   snd (handleStatus now (fst (handleOff s))) = send_json (status_json False False ''0'') \<and>
   bit (GPO (fst (handleOffApi t s))) 5 \<and> \<not> isLampOn (fst (handleOffApi t s)) \<and>
   \<not> timeoutActive (fst (handleOffApi t s)) \<and>
   snd (handleOffApi t s) = send_json (status_json False False ''0'') \<and>
   snd (handleStatus now (fst (handleOffApi t s))) = send_json (status_json False False ''0'') \<and>
   bit (GPO (fst (handleOff_opt s))) 5 \<and> \<not> isLampOn_opt (fst (handleOff_opt s)) \<and>
   \<not> timeoutActive (fst (handleOff_opt s)) \<and>
   snd (handleStatus_opt now (fst (handleOff_opt s))) =
     send_json (status_json False False ''0'') \<and>
   bit (GPO (fst (handleOffApi_opt t s))) 5 \<and> \<not> isLampOn_opt (fst (handleOffApi_opt t s)) \<and>
   \<not> timeoutActive (fst (handleOffApi_opt t s)) \<and>
   snd (handleOffApi_opt t s) = send_json (status_json False False ''0'') \<and>
   snd (handleStatus_opt now (fst (handleOffApi_opt t s))) =
     send_json (status_json False False ''0'')"
proof -
  have off: "bit (GPO (fst (handleOff s))) 5" "\<not> timeoutActive (fst (handleOff s))"
    using pin5_raised [of "GPO s"] by (simp_all add: fst_handleOff)
  have api: "snd (handleOffApi t s) = snd (handleStatus t (fst (handleOff s)))"
    by (simp add: handleOffApi_def handleOff_def handleStatus_def Let_def)
  have api_opt: "snd (handleOffApi_opt t s) = snd (handleStatus_opt t (fst (handleOff s)))"
    by (simp add: handleOffApi_opt_def handleOff_def handleStatus_opt_def sendJsonResponse_def
        setLampWithState_def setLamp_opt_eq Let_def)
  show ?thesis
    using off
    by (simp add: fst_handleOffApi fst_handleOff_opt fst_handleOffApi_opt api api_opt
        status_after_off isLampOn_pin isLampOn_opt_pin)
qed

lemma isLampOn_opt_eq: "isLampOn_opt s = isLampOn s"
  by (simp add: isLampOn_pin isLampOn_opt_pin)

lemma fst_handleOn:
  "fst (handleOn s) = s\<lparr>GPO := GPO s AND NOT (push_bit 5 1), relayState := True\<rparr>"
  by (simp add: handleOn_def setLamp_eq)

lemma fst_handleOnApi: "fst (handleOnApi t s) = fst (handleOn s)"
  by (simp add: handleOnApi_def handleOn_def Let_def)

lemma fst_handleOn_opt: "fst (handleOn_opt s) = fst (handleOn s)"
  by (simp add: handleOn_opt_def handleOn_def setLampWithState_def setLamp_opt_eq Let_def)

lemma fst_handleOnApi_opt: "fst (handleOnApi_opt t s) = fst (handleOn s)"
  by (simp add: handleOnApi_opt_def handleOn_def setLampWithState_def setLamp_opt_eq Let_def)

section \<open>Turning the lamp on\<close>

text \<open>
  Claim C8.  Each of the four turn-on handlers (\<^verbatim>\<open>/on\<close> and \<^verbatim>\<open>/api/on\<close>, in both
  sketches) leaves the lamp on and changes none of the timer's fields: the active flag,
  the duration and the start time are what they were, so a running timer is neither
  restarted nor cancelled.
\<close>

theorem turn_on_keeps_timer:
  "isLampOn (fst (handleOn s)) \<and>
   timeoutActive (fst (handleOn s)) = timeoutActive s \<and>
   currentTimeout (fst (handleOn s)) = currentTimeout s \<and>
   timeoutStart (fst (handleOn s)) = timeoutStart s \<and>
   isLampOn (fst (handleOnApi t s)) \<and>
   timeoutActive (fst (handleOnApi t s)) = timeoutActive s \<and>
   currentTimeout (fst (handleOnApi t s)) = currentTimeout s \<and>
   timeoutStart (fst (handleOnApi t s)) = timeoutStart s \<and>
   isLampOn_opt (fst (handleOn_opt s)) \<and>
   timeoutActive (fst (handleOn_opt s)) = timeoutActive s \<and>
   currentTimeout (fst (handleOn_opt s)) = currentTimeout s \<and>
   timeoutStart (fst (handleOn_opt s)) = timeoutStart s \<and>
   isLampOn_opt (fst (handleOnApi_opt t s)) \<and>
   timeoutActive (fst (handleOnApi_opt t s)) = timeoutActive s \<and>
   currentTimeout (fst (handleOnApi_opt t s)) = currentTimeout s \<and>
   timeoutStart (fst (handleOnApi_opt t s)) = timeoutStart s"
proof -
  have "isLampOn (fst (handleOn s))"
    using pin5_lowered [of "GPO s"] by (simp add: fst_handleOn isLampOn_pin)
  then show ?thesis
    by (simp add: fst_handleOnApi fst_handleOn_opt fst_handleOnApi_opt isLampOn_opt_eq)
      (simp add: fst_handleOn)
qed

section \<open>The timer checks of a loop iteration\<close>

lemma fst_loop:
  "fst (loop now1 now2 s) =
     (if timeoutActive s \<and> isLampOn s \<and> currentTimeout s * 60000 \<le> now1 - timeoutStart s
      then s\<lparr>GPO := GPO s OR push_bit 5 1, relayState := False, timeoutActive := False\<rparr>
      else if timeoutActive s \<and> \<not> isLampOn s then s\<lparr>timeoutActive := False\<rparr>
      else s)"
  by (simp add: loop_def Let_def setLamp_eq)

lemma loop_opt_eq:
  "loop_opt now s =
     (let s2 = fst (loop now now s) in
      if SAFETY_CHECK_INTERVAL \<le> now - lastSafetyCheck s
      then (s2\<lparr>lastSafetyCheck := now\<rparr>,
            \<not> isLampOn s2 \<and> SAFETY_REBOOT_INTERVAL \<le> now - moduleStartTime s)
      else (s2, False))"
  by (simp add: loop_opt_def loop_def Let_def setLamp_opt_eq isLampOn_opt_eq isLampOn_pin setLamp_eq)

lemma duration_no_wrap:
  "unat (c :: 32 word) \<le> 71582 \<Longrightarrow> (c * 60000 \<le> e) = (unat c * 60000 \<le> unat e)"
proof -
  assume a: "unat c \<le> 71582"
  have "unat (c * 60000) = unat c * 60000"
    using a by (simp add: unat_word_ariths)
  then show ?thesis by (simp add: word_le_nat_alt)
qed

text \<open>
  Claim C2.  The timer checks of one iteration of \<^verbatim>\<open>loop\<close> follow the table of lamp and
  timer.  With the timer active, the lamp on and the elapsed time \<open>now1 - timeoutStart\<close>
  at least \<open>currentTimeout * 60000\<close>, the relay pin is raised (lamp off) and the timer
  becomes inactive, and nothing else changes: the override check that follows finds the
  timer inactive.  With the timer active and the lamp off, only the active flag is
  cleared.  In every other case the state is unchanged.  The optimized sketch makes the
  same changes and also records the time of a safety check that is due.  The comparison
  is the one of the sketches, in 32-bit unsigned arithmetic; it is the comparison of the
  numbers whenever the duration is at most 71582 minutes, which holds for every duration
  a handler stores.
\<close>

theorem tick_transition_table:
  "(timeoutActive s \<and> isLampOn s \<and> currentTimeout s * 60000 \<le> now1 - timeoutStart s \<longrightarrow>
      fst (loop now1 now2 s) =
        s\<lparr>GPO := GPO s OR push_bit 5 1, relayState := False, timeoutActive := False\<rparr> \<and>
      \<not> isLampOn (fst (loop now1 now2 s))) \<and>
   (timeoutActive s \<and> \<not> isLampOn s \<longrightarrow> fst (loop now1 now2 s) = s\<lparr>timeoutActive := False\<rparr>) \<and>
   (\<not> timeoutActive s \<or>
    isLampOn s \<and> \<not> currentTimeout s * 60000 \<le> now1 - timeoutStart s \<longrightarrow>
      fst (loop now1 now2 s) = s) \<and>
   fst (loop_opt now1 s) =
     (fst (loop now1 now2 s))
       \<lparr>lastSafetyCheck :=
          (if SAFETY_CHECK_INTERVAL \<le> now1 - lastSafetyCheck s then now1
           else lastSafetyCheck s)\<rparr> \<and>
   (unat (currentTimeout s) \<le> 71582 \<longrightarrow>
      (currentTimeout s * 60000 \<le> now1 - timeoutStart s) =
      (unat (currentTimeout s) * 60000 \<le> unat (now1 - timeoutStart s)))"
proof -
  have expired: "\<not> isLampOn (s\<lparr>GPO := GPO s OR push_bit 5 1, relayState := False,
      timeoutActive := False\<rparr>)"
    using pin5_raised [of "GPO s"] by (simp add: isLampOn_pin)
  have opt: "fst (loop_opt now1 s) =
     (fst (loop now1 now2 s))
       \<lparr>lastSafetyCheck :=
          (if SAFETY_CHECK_INTERVAL \<le> now1 - lastSafetyCheck s then now1
           else lastSafetyCheck s)\<rparr>"
    by (simp add: loop_opt_eq Let_def) (simp add: fst_loop)
  show ?thesis
    using expired opt duration_no_wrap [of "currentTimeout s" "now1 - timeoutStart s"]
    by (simp add: fst_loop)
qed

theorem tick_transition_table_witness:
  "timeoutActive timer_running \<and> isLampOn timer_running \<and>
   fst (loop 61000 61000 timer_running) =
     timer_running\<lparr>GPO := 32, relayState := False, timeoutActive := False\<rparr> \<and>
   fst (loop 60999 60999 timer_running) = timer_running \<and>
   \<not> isLampOn timer_orphaned \<and>
   fst (loop 60999 60999 timer_orphaned) = timer_orphaned\<lparr>timeoutActive := False\<rparr> \<and>
   fst (loop_opt 61000 timer_running) =
     timer_running\<lparr>GPO := 32, relayState := False, timeoutActive := False\<rparr>"
  using tick_transition_table [of timer_running 61000 61000]
    tick_transition_table [of timer_running 60999 60999]
    tick_transition_table [of timer_orphaned 60999 60999]
  by (simp add: timer_running_def timer_orphaned_def isLampOn_pin SAFETY_CHECK_INTERVAL_def)

section \<open>The remaining seconds of the status\<close>

lemma sint_small: "uint (w :: 32 word) < 2 ^ 31 \<Longrightarrow> sint w = uint w"
proof -
  assume a: "uint w < 2 ^ 31"
  have b: "- (2 ^ 31) \<le> uint w" by (rule order_trans [OF _ uint_ge_0]) simp
  have "sint w = signed_take_bit 31 (uint w)"
    by (simp add: sint_uint)
  also have "\<dots> = uint w"
    using a b by (intro signed_take_bit_int_eq_self) simp_all
  finally show ?thesis .
qed

lemma sint_diff_small:
  assumes "uint (d :: 32 word) < 2 ^ 31" "uint (e :: 32 word) < 2 ^ 31"
  shows "sint (d - e) = uint d - uint e"
proof -
  have "0 \<le> uint d" "0 \<le> uint e" by simp_all
  with assms have b: "- (2 ^ 31) \<le> uint d - uint e" "uint d - uint e < 2 ^ 31"
    by linarith+
  have "sint (d - e) = signed_take_bit 31 (sint d - sint e)"
    by (simp add: sint_word_ariths)
  also have "\<dots> = sint d - sint e"
    using assms b by (intro signed_take_bit_int_eq_self) (simp_all add: sint_small)
  finally show ?thesis using assms by (simp add: sint_small)
qed

lemma long_div_1000:
  assumes "0 \<le> sint (r :: 32 word)"
  shows "uint (long_div r 1000) = sint r div 1000"
proof -
  have pos: "sint r sdiv 1000 = sint r div 1000"
    using assms by (simp add: signed_divide_int_def sgn_if)
  have "sint r < 2 ^ 31" using sint_lt [of r] by simp
  then have "sint r div 1000 < 2 ^ 32" "0 \<le> sint r div 1000"
    using assms by simp_all
  then have "take_bit 32 (sint r div 1000) = sint r div 1000"
    by (intro take_bit_int_eq_self) simp_all
  then show ?thesis
    by (simp add: long_div_def pos uint_word_of_int_eq)
qed


lemma remainingSeconds_opt_eq: "remainingSeconds_opt now s = remainingSeconds now s"
  by (simp add: remainingSeconds_opt_def remainingSeconds_def calculateRemainingSeconds_def
      isLampOn_opt_eq Let_def)

lemma buildStatusJson_opt_eq: "buildStatusJson_opt now s = buildStatusJson now s"
  by (simp add: buildStatusJson_opt_def buildStatusJson_def remainingSeconds_opt_eq
      isLampOn_opt_eq String_ul_def)

lemma remaining_in_range:
  assumes c: "uint (c :: 32 word) * 60000 < 2 ^ 31" and e: "uint (e :: 32 word) < 2 ^ 31"
  shows "uint (long_div (if c * 60000 - e <s 0 then 0 else c * 60000 - e) 1000) =
         max 0 (uint c * 60000 - uint e) div 1000"
proof -
  have "uint c * 60000 < 2 ^ 32" using c by simp
  then have "take_bit 32 (uint c * 60000) = uint c * 60000"
    by (intro take_bit_int_eq_self) simp_all
  then have d: "uint (c * 60000) = uint c * 60000"
    by (simp add: uint_word_ariths take_bit_eq_mod)
  have r: "sint (c * 60000 - e) = uint c * 60000 - uint e"
    using sint_diff_small [of "c * 60000" e] c e by (simp add: d)
  show ?thesis
  proof (cases "c * 60000 - e <s 0")
    case True
    then have "uint c * 60000 - uint e < 0" by (simp add: word_sless_alt r)
    with True show ?thesis by (simp add: long_div_def)
  next
    case False
    then have "0 \<le> sint (c * 60000 - e)" by (simp add: word_sless_alt)
    with False show ?thesis using long_div_1000 [of "c * 60000 - e"] by (simp add: r)
  qed
qed

lemma remainingSeconds_in_range:
  assumes "timeoutActive s" and "isLampOn s"
    and "uint (currentTimeout s) * 60000 < 2 ^ 31" and "uint (now - timeoutStart s) < 2 ^ 31"
  shows "uint (remainingSeconds now s) =
         max 0 (uint (currentTimeout s) * 60000 - uint (now - timeoutStart s)) div 1000"
  using assms remaining_in_range [of "currentTimeout s" "now - timeoutStart s"]
  by (simp add: remainingSeconds_def Let_def)

text \<open>
  Claim C5, as amended.  The \<^verbatim>\<open>remainingSeconds\<close> field of the status JSON is the decimal
  text of \<open>remainingSeconds now s\<close>, the same number in both sketches.  It is 0 for
  every state in which the timer is inactive or the lamp is off.  With the timer active
  and the lamp on it is \<open>max 0 (currentTimeout * 60000 - elapsed) div 1000\<close>, where
  \<open>elapsed\<close> is \<open>now - timeoutStart\<close> modulo \<open>2 ^ 32\<close>, provided that both the budget
  \<open>currentTimeout * 60000\<close> and \<open>elapsed\<close> are below \<open>2 ^ 31\<close> milliseconds, the
  range in which the cast to \<^verbatim>\<open>long\<close> keeps the value.
\<close>

theorem remaining_seconds_field:
  "buildStatusJson now s =
     status_json (isLampOn s) (timeoutActive s) (String_ul (remainingSeconds now s)) \<and>
   buildStatusJson_opt now s =
     status_json (isLampOn_opt s) (timeoutActive s) (fastItoa (remainingSeconds_opt now s)) \<and>
   remainingSeconds_opt now s = remainingSeconds now s \<and>
   (\<not> timeoutActive s \<or> \<not> isLampOn s \<longrightarrow> remainingSeconds now s = 0) \<and>
   (timeoutActive s \<and> isLampOn s \<and>
    uint (currentTimeout s) * 60000 < 2 ^ 31 \<and> uint (now - timeoutStart s) < 2 ^ 31 \<longrightarrow>
      uint (remainingSeconds now s) =
        max 0 (uint (currentTimeout s) * 60000 - uint (now - timeoutStart s)) div 1000)"
proof -
  have idle: "\<not> timeoutActive s \<or> \<not> isLampOn s \<longrightarrow> remainingSeconds now s = 0"
    by (auto simp add: remainingSeconds_def)
  have counting: "timeoutActive s \<and> isLampOn s \<and>
    uint (currentTimeout s) * 60000 < 2 ^ 31 \<and> uint (now - timeoutStart s) < 2 ^ 31 \<longrightarrow>
      uint (remainingSeconds now s) =
        max 0 (uint (currentTimeout s) * 60000 - uint (now - timeoutStart s)) div 1000"
    using remainingSeconds_in_range [of s now] by simp
  show ?thesis
    using idle counting
    by (simp add: remainingSeconds_opt_eq buildStatusJson_def buildStatusJson_opt_def)
qed

theorem remaining_seconds_field_witness:
  "remainingSeconds 31000 timer_orphaned = 0 \<and>
   timeoutActive timer_running \<and> isLampOn timer_running \<and>
   uint (remainingSeconds 31000 timer_running) = 30 \<and>
   uint (remainingSeconds 61001 timer_running) = 0"
  using remaining_seconds_field [of 31000 timer_orphaned]
    remaining_seconds_field [of 31000 timer_running]
    remaining_seconds_field [of 61001 timer_running]
  by (simp add: timer_running_def timer_orphaned_def isLampOn_pin)

text \<open>
  Claim C5 as stated, for every state and clock reading, fails: with a timer of one
  minute started at clock 1000 and the clock at 0 (elapsed \<open>2 ^ 32 - 1000\<close>, far beyond
  the budget), the cast of the elapsed time to \<^verbatim>\<open>long\<close> is negative and the status reports
  61 seconds, where the stated formula gives 0.
\<close>

theorem remaining_seconds_counterexample:
  "timeoutActive timer_running \<and> isLampOn timer_running \<and>
   uint (remainingSeconds 0 timer_running) = 61 \<and>
   max 0 (uint (currentTimeout timer_running) * 60000 - uint (0 - timeoutStart timer_running))
     div 1000 = 0"
  by (simp add: timer_running_def isLampOn_pin remainingSeconds_def long_div_def
      word_sless_alt signed_divide_int_def)

section \<open>Setting the timer\<close>

text \<open>The minutes a request asks for, after the two clamping statements.\<close>

lemma clamp_minutes:
  fixes v :: "32 word"
  defines "m \<equiv>
    (let minutes = (if v <s 0 then 0 else v) in if 720 <s minutes then 720 else minutes)"
  shows "sint m = max 0 (min 720 (sint v))" and "m = word_of_int (max 0 (min 720 (sint v)))"
    and "(0 <s m \<and> m \<le>s 720) = (1 \<le> sint v)"
proof -
  show a: "sint m = max 0 (min 720 (sint v))"
    by (auto simp add: m_def Let_def word_sless_alt)
  have "m = word_of_int (sint m)" by simp
  then show "m = word_of_int (max 0 (min 720 (sint v)))" by (simp only: a)
  show "(0 <s m \<and> m \<le>s 720) = (1 \<le> sint v)"
    by (auto simp add: word_sless_alt word_sle_eq a)
qed

lemma fst_handleTimeout:
  "fst (handleTimeout (Some a) now s) =
     (if 1 \<le> sint (toInt a) then
        (if isLampOn s then s else s\<lparr>GPO := GPO s AND NOT (push_bit 5 1), relayState := True\<rparr>)
          \<lparr>currentTimeout := word_of_int (max 0 (min 720 (sint (toInt a)))),
           timeoutActive := True, timeoutStart := now\<rparr>
      else s\<lparr>timeoutActive := False, currentTimeout := 0\<rparr>)"
  using clamp_minutes(2,3) [of "toInt a"]
  by (simp add: handleTimeout_def Let_def setLamp_eq)

lemma fst_handleTimeout_opt: "fst (handleTimeout_opt arg now s) = fst (handleTimeout arg now s)"
  by (cases arg) (simp_all add: handleTimeout_opt_def handleTimeout_def setLamp_opt_eq isLampOn_opt_eq Let_def)

lemma snd_handleTimeout:
  "snd (handleTimeout arg now s) = sendRedirect"
  "snd (handleTimeout_opt arg now s) = sendRedirect"
  by (simp_all add: handleTimeout_def handleTimeout_opt_def)


lemma fst_handleTimeout_clamp:
  "fst (handleTimeout (Some a) now s) =
     (if 1 \<le> clamp_0_720 (sint (toInt a)) then
        (if isLampOn s then s else s\<lparr>GPO := GPO s AND NOT (push_bit 5 1), relayState := True\<rparr>)
          \<lparr>currentTimeout := word_of_int (clamp_0_720 (sint (toInt a))),
           timeoutActive := True, timeoutStart := now\<rparr>
      else s\<lparr>timeoutActive := False, currentTimeout := 0\<rparr>)"
  by (simp add: fst_handleTimeout clamp_0_720_def)

lemma uint_clamped:
  "uint (word_of_int (clamp_0_720 v) :: 32 word) = clamp_0_720 v"
proof -
  have "0 \<le> clamp_0_720 v" "clamp_0_720 v < 2 ^ 32"
    by (simp_all add: clamp_0_720_def)
  then have "take_bit 32 (clamp_0_720 v) = clamp_0_720 v"
    by (intro take_bit_int_eq_self)
  then show ?thesis by (simp add: uint_word_of_int_eq)
qed

lemma lamp_on_after_start:
  "isLampOn ((if isLampOn s then s
              else s\<lparr>GPO := GPO s AND NOT (push_bit 5 1), relayState := True\<rparr>)
             \<lparr>currentTimeout := c, timeoutActive := True, timeoutStart := now\<rparr>)"
  using pin5_lowered [of "GPO s"] by (simp add: isLampOn_pin)

lemma toInt_examples:
  "sint (toInt ''30'') = 30" "sint (toInt ''-5'') = - 5" "sint (toInt ''1000'') = 1000"
  "sint (toInt ''0'') = 0" "sint (toInt ''abc'') = 0"
  by (simp_all add: toInt_def atol_def isspace_def isdigit_def)

text \<open>
  Claim C6.  A \<^verbatim>\<open>/timeout\<close> request that carries a \<^verbatim>\<open>minutes\<close> argument is never
  rejected: both sketches answer with the redirect and act on the parsed value clamped
  into the window from 0 to 720 (a negative value counts as 0, a value above 720 as 720).
  When the clamped value \<open>N\<close> is at least 1, the timer is active afterwards with
  duration \<open>N\<close> and start time \<open>now\<close>, and the lamp is on: the relay pin is untouched
  when the lamp was on already and lowered otherwise.
\<close>

theorem timeout_clamps_and_starts:
  "snd (handleTimeout (Some a) now s) = sendRedirect \<and>
   snd (handleTimeout_opt (Some a) now s) = sendRedirect \<and>
   fst (handleTimeout_opt (Some a) now s) = fst (handleTimeout (Some a) now s) \<and>
   clamp_0_720 (sint (toInt a)) =
     (if sint (toInt a) < 0 then 0 else if 720 < sint (toInt a) then 720 else sint (toInt a)) \<and>
   (1 \<le> clamp_0_720 (sint (toInt a)) \<longrightarrow>
      timeoutActive (fst (handleTimeout (Some a) now s)) \<and>
      uint (currentTimeout (fst (handleTimeout (Some a) now s))) = clamp_0_720 (sint (toInt a)) \<and>
      timeoutStart (fst (handleTimeout (Some a) now s)) = now \<and>
      isLampOn (fst (handleTimeout (Some a) now s)) \<and>
      (isLampOn s \<longrightarrow> GPO (fst (handleTimeout (Some a) now s)) = GPO s))"
  using lamp_on_after_start [where s = s and c = "word_of_int (clamp_0_720 (sint (toInt a)))" and now = now]
  by (simp add: snd_handleTimeout fst_handleTimeout_opt fst_handleTimeout_clamp uint_clamped)
    (simp add: clamp_0_720_def)

theorem timeout_clamps_and_starts_witness:
  "clamp_0_720 (sint (toInt ''-5'')) = 0 \<and>
   clamp_0_720 (sint (toInt ''1000'')) = 720 \<and>
   \<not> isLampOn timer_orphaned \<and>
   isLampOn (fst (handleTimeout (Some ''1000'') 7 timer_orphaned)) \<and>
   timeoutActive (fst (handleTimeout (Some ''1000'') 7 timer_orphaned)) \<and>
   uint (currentTimeout (fst (handleTimeout (Some ''1000'') 7 timer_orphaned))) = 720 \<and>
   timeoutStart (fst (handleTimeout (Some ''1000'') 7 timer_orphaned)) = 7 \<and>
   isLampOn timer_running \<and>
   uint (currentTimeout (fst (handleTimeout (Some ''30'') 7 timer_running))) = 30 \<and>
   GPO (fst (handleTimeout (Some ''30'') 7 timer_running)) = GPO timer_running"
  using timeout_clamps_and_starts [of "''-5''" 7 timer_orphaned]
    timeout_clamps_and_starts [of "''1000''" 7 timer_orphaned]
    timeout_clamps_and_starts [of "''30''" 7 timer_running]
  by (simp add: toInt_examples clamp_0_720_def)
    (simp add: timer_running_def timer_orphaned_def isLampOn_pin)

text \<open>
  Claim C7.  A \<^verbatim>\<open>/timeout\<close> request whose clamped minutes are 0 cancels the timer: the
  active flag is cleared (and the duration reset to 0), while the relay pin, and so the
  lamp, stay as they were.
\<close>

theorem timeout_zero_cancels:
  "clamp_0_720 (sint (toInt a)) = 0 \<Longrightarrow>
   fst (handleTimeout (Some a) now s) = s\<lparr>timeoutActive := False, currentTimeout := 0\<rparr> \<and>
   fst (handleTimeout_opt (Some a) now s) = s\<lparr>timeoutActive := False, currentTimeout := 0\<rparr> \<and>
   \<not> timeoutActive (fst (handleTimeout (Some a) now s)) \<and>
   GPO (fst (handleTimeout (Some a) now s)) = GPO s \<and>
   relayState (fst (handleTimeout (Some a) now s)) = relayState s \<and>
   isLampOn (fst (handleTimeout (Some a) now s)) = isLampOn s \<and>
   isLampOn_opt (fst (handleTimeout_opt (Some a) now s)) = isLampOn_opt s"
  by (simp add: fst_handleTimeout_opt fst_handleTimeout_clamp isLampOn_pin isLampOn_opt_pin)

theorem timeout_zero_cancels_witness:
  "clamp_0_720 (sint (toInt ''0'')) = 0 \<and> clamp_0_720 (sint (toInt ''-5'')) = 0 \<and>
   timeoutActive timer_running \<and>
   fst (handleTimeout (Some ''0'') 7 timer_running) =
     timer_running\<lparr>timeoutActive := False, currentTimeout := 0\<rparr> \<and>
   fst (handleTimeout_opt (Some ''-5'') 7 timer_running) =
     timer_running\<lparr>timeoutActive := False, currentTimeout := 0\<rparr>"
  using timeout_zero_cancels [of "''0''" 7 timer_running]
    timeout_zero_cancels [of "''-5''" 7 timer_running]
  by (simp add: toInt_examples clamp_0_720_def) (simp add: timer_running_def)

text \<open>
  Claim C10.  A \<^verbatim>\<open>/timeout\<close> request with clamped minutes \<open>N\<close> of at least 1 that
  arrives while a timer is active replaces that timer: afterwards the timer is active with
  duration \<open>N\<close> and start time \<open>now\<close>, the lamp is on (its pin untouched if it was on),
  the remaining time at \<open>now\<close> is the full \<open>N * 60\<close> seconds, and the outcome does not
  depend on the duration and start time of the old timer.
\<close>

theorem timeout_replaces_running_timer:
  assumes "timeoutActive s" and "1 \<le> clamp_0_720 (sint (toInt a))"
  shows "timeoutActive (fst (handleTimeout (Some a) now s)) \<and>
     uint (currentTimeout (fst (handleTimeout (Some a) now s))) = clamp_0_720 (sint (toInt a)) \<and>
     timeoutStart (fst (handleTimeout (Some a) now s)) = now \<and>
     isLampOn (fst (handleTimeout (Some a) now s)) \<and>
     (isLampOn s \<longrightarrow> GPO (fst (handleTimeout (Some a) now s)) = GPO s) \<and>
     uint (remainingSeconds now (fst (handleTimeout (Some a) now s))) =
       clamp_0_720 (sint (toInt a)) * 60 \<and>
     fst (handleTimeout (Some a) now (s\<lparr>currentTimeout := c, timeoutStart := t\<rparr>)) =
       fst (handleTimeout (Some a) now s) \<and>
     fst (handleTimeout_opt (Some a) now s) = fst (handleTimeout (Some a) now s)"
proof -
  let ?s' = "fst (handleTimeout (Some a) now s)"
  have on: "isLampOn ?s'"
    using assms(2)
      lamp_on_after_start [where s = s and c = "word_of_int (clamp_0_720 (sint (toInt a)))"
        and now = now]
    by (simp add: fst_handleTimeout_clamp)
  have fields: "timeoutActive ?s'" "timeoutStart ?s' = now"
    "uint (currentTimeout ?s') = clamp_0_720 (sint (toInt a))"
    using assms(2) by (simp_all add: fst_handleTimeout_clamp uint_clamped)
  have "clamp_0_720 (sint (toInt a)) \<le> 720" by (simp add: clamp_0_720_def)
  then have "uint (remainingSeconds now ?s') =
      max 0 (uint (currentTimeout ?s') * 60000 - uint (now - timeoutStart ?s')) div 1000"
    using on fields by (intro remainingSeconds_in_range) simp_all
  then have rem: "uint (remainingSeconds now ?s') = clamp_0_720 (sint (toInt a)) * 60"
    using assms(2) by (simp add: fields)
  have same: "fst (handleTimeout (Some a) now (s\<lparr>currentTimeout := c, timeoutStart := t\<rparr>)) = ?s'"
    using assms(2) by (simp add: fst_handleTimeout_clamp isLampOn_pin)
  have kept: "isLampOn s \<longrightarrow> GPO ?s' = GPO s"
    using assms(2) by (simp add: fst_handleTimeout_clamp)
  show ?thesis
    using on fields rem same kept by (simp add: fst_handleTimeout_opt)
qed

theorem timeout_replaces_running_timer_witness:
  "timeoutActive timer_running \<and> 1 \<le> clamp_0_720 (sint (toInt ''30'')) \<and>
   uint (remainingSeconds 31000 timer_running) = 30 \<and>
   uint (currentTimeout (fst (handleTimeout (Some ''30'') 31000 timer_running))) = 30 \<and>
   timeoutStart (fst (handleTimeout (Some ''30'') 31000 timer_running)) = 31000 \<and>
   uint (remainingSeconds 31000 (fst (handleTimeout (Some ''30'') 31000 timer_running))) = 1800"
proof -
  have h: "timeoutActive timer_running" "1 \<le> clamp_0_720 (sint (toInt ''30''))"
    by (simp_all add: timer_running_def toInt_examples clamp_0_720_def)
  have "uint (remainingSeconds 31000 timer_running) =
      max 0 (uint (currentTimeout timer_running) * 60000 -
             uint (31000 - timeoutStart timer_running)) div 1000"
    by (intro remainingSeconds_in_range) (simp_all add: timer_running_def isLampOn_pin)
  then have before: "uint (remainingSeconds 31000 timer_running) = 30"
    by (simp add: timer_running_def)
  show ?thesis
    using timeout_replaces_running_timer [OF h, of 31000] h before
    by (simp add: toInt_examples clamp_0_720_def)
qed

section \<open>A request without a number\<close>

lemma digits_value_no_digit:
  "list_all (\<lambda>c. \<not> isdigit c) cs \<Longrightarrow> digits_value acc cs = acc"
  by (cases cs) simp_all

lemma toInt_no_digit:
  assumes "list_all (\<lambda>c. \<not> isdigit c) a"
  shows "toInt a = 0"
proof -
  have rest: "list_all (\<lambda>c. \<not> isdigit c) (dropWhile isspace a)"
    using assms by (auto simp add: list_all_iff dest: set_dropWhileD)
  have "atol a = 0"
  proof (cases "dropWhile isspace a")
    case Nil
    show ?thesis unfolding atol_def Nil by simp
  next
    case (Cons c cs)
    with rest have "list_all (\<lambda>c. \<not> isdigit c) (c # cs)" by simp
    then have "digits_value 0 cs = 0" "digits_value 0 (c # cs) = 0"
      by (simp_all add: digits_value_no_digit)
    with Cons show ?thesis by (simp add: atol_def)
  qed
  then show ?thesis by (simp add: toInt_def)
qed

text \<open>
  Claim C4, as amended.  Every \<^verbatim>\<open>/timeout\<close> request is answered with the redirect.  A
  request without a \<^verbatim>\<open>minutes\<close> argument changes nothing.  A request whose argument
  contains no digit is read as 0 minutes: the timer is cancelled (active flag cleared,
  duration reset to 0), while the start time and the relay stay as they were.
\<close>

theorem timeout_missing_or_non_numeric:
  "fst (handleTimeout None now s) = s \<and> snd (handleTimeout None now s) = sendRedirect \<and>
   fst (handleTimeout_opt None now s) = s \<and> snd (handleTimeout_opt None now s) = sendRedirect \<and>
   snd (handleTimeout (Some a) now s) = sendRedirect \<and>
   snd (handleTimeout_opt (Some a) now s) = sendRedirect \<and>
   (list_all (\<lambda>c. \<not> isdigit c) a \<longrightarrow>
      fst (handleTimeout (Some a) now s) = s\<lparr>timeoutActive := False, currentTimeout := 0\<rparr> \<and>
      fst (handleTimeout_opt (Some a) now s) = s\<lparr>timeoutActive := False, currentTimeout := 0\<rparr>)"
proof -
  have missing: "fst (handleTimeout None now s) = s" "fst (handleTimeout_opt None now s) = s"
    by (simp_all add: handleTimeout_def handleTimeout_opt_def)
  have "list_all (\<lambda>c. \<not> isdigit c) a \<longrightarrow>
      fst (handleTimeout (Some a) now s) = s\<lparr>timeoutActive := False, currentTimeout := 0\<rparr>"
    by (simp add: fst_handleTimeout toInt_no_digit)
  then show ?thesis
    using missing by (simp add: snd_handleTimeout fst_handleTimeout_opt)
qed

theorem timeout_missing_or_non_numeric_witness:
  "list_all (\<lambda>c. \<not> isdigit c) ''abc'' \<and>
   fst (handleTimeout (Some ''abc'') 2000 timer_running) =
     timer_running\<lparr>timeoutActive := False, currentTimeout := 0\<rparr> \<and>
   fst (handleTimeout None 2000 timer_running) = timer_running"
  using timeout_missing_or_non_numeric [of 2000 timer_running "''abc''"]
  by (simp add: isdigit_def)

text \<open>
  Claim C4 as stated fails for a malformed argument: with a timer of one minute running,
  the request \<^verbatim>\<open>/timeout?minutes=abc\<close> leaves the timer inactive with duration 0, in
  both sketches.
\<close>

theorem timeout_non_numeric_counterexample:
  "timeoutActive timer_running \<and> currentTimeout timer_running = 1 \<and>
   \<not> timeoutActive (fst (handleTimeout (Some ''abc'') 2000 timer_running)) \<and>
   currentTimeout (fst (handleTimeout (Some ''abc'') 2000 timer_running)) = 0 \<and>
   \<not> timeoutActive (fst (handleTimeout_opt (Some ''abc'') 2000 timer_running)) \<and>
   currentTimeout (fst (handleTimeout_opt (Some ''abc'') 2000 timer_running)) = 0"
  by (simp add: fst_handleTimeout_opt fst_handleTimeout toInt_examples)
    (simp add: timer_running_def)

section \<open>The invariant of the timer\<close>

lemma timer_inv_loop: "timer_inv s \<Longrightarrow> timer_inv (fst (loop now1 now2 s))"
  by (simp add: fst_loop timer_inv_def)

lemma timer_inv_handleTimeout: "timer_inv s \<Longrightarrow> timer_inv (fst (handleTimeout arg now s))"
proof (cases arg)
  case None
  then show "timer_inv s \<Longrightarrow> ?thesis" by (simp add: handleTimeout_def)
next
  case (Some a)
  have "1 \<le> sint (toInt a) \<Longrightarrow>
      uint (word_of_int (clamp_0_720 (sint (toInt a))) :: 32 word) \<noteq> 0"
    by (simp only: uint_clamped) (simp add: clamp_0_720_def)
  then have "1 \<le> sint (toInt a) \<Longrightarrow>
      (0 :: 32 word) < word_of_int (clamp_0_720 (sint (toInt a)))"
    by (auto simp add: word_greater_zero_iff)
  with Some show ?thesis
    by (simp add: fst_handleTimeout timer_inv_def clamp_0_720_def)
qed

lemma timer_inv_handleClient: "timer_inv s \<Longrightarrow> timer_inv (fst (handleClient req now s))"
proof (cases req)
  case None
  then show "timer_inv s \<Longrightarrow> ?thesis" by simp
next
  case (Some r)
  assume inv: "timer_inv s"
  show ?thesis
  proof (cases r)
    case (GetTimeout arg)
    with Some inv show ?thesis by (simp add: timer_inv_handleTimeout)
  qed (use Some inv in \<open>simp_all add: fst_handleOn fst_handleOff fst_handleOnApi
        fst_handleOffApi handleStatus_def timer_inv_def\<close>)
qed

lemma fst_handleClient_opt: "fst (handleClient_opt req now s) = fst (handleClient req now s)"
proof (cases req)
  case None
  then show ?thesis by simp
next
  case (Some r)
  then show ?thesis
    by (cases r)
      (simp_all add: fst_handleTimeout_opt fst_handleOn_opt fst_handleOff_opt
        fst_handleOnApi_opt fst_handleOffApi_opt fst_handleOnApi fst_handleOffApi
        handleStatus_def handleStatus_opt_def)
qed

text \<open>
  Claim C9.  An active timer has a positive duration: this holds in the state \<^verbatim>\<open>setup\<close>
  leaves, whatever the pins and the clock, and every request handler and the body of
  \<^verbatim>\<open>loop\<close> preserve it, in both sketches.
\<close>

theorem timer_invariant:
  "timer_inv (setup_sketch gpo now) \<and> timer_inv (setup_opt gpo now) \<and>
   (timer_inv s \<longrightarrow>
      timer_inv (fst (handleClient req now s)) \<and> timer_inv (fst (loop now1 now2 s)) \<and>
      timer_inv (fst (handleClient_opt req now s)) \<and> timer_inv (fst (loop_opt now1 s)))"
proof -
  have boot: "timer_inv (setup_sketch gpo now)" "timer_inv (setup_opt gpo now)"
    by (simp_all add: timer_inv_def setup_sketch_def setup_opt_def initial_globals_def
        digitalWrite_def GPIO_SET_HIGH_def write_GPOS_def)
  have "timer_inv s \<Longrightarrow> timer_inv (fst (loop_opt now1 s))"
    using timer_inv_loop [of s now1 now1] by (simp add: loop_opt_eq Let_def timer_inv_def)
  then show ?thesis
    using boot by (simp add: timer_inv_handleClient timer_inv_loop fst_handleClient_opt)
qed

theorem timer_invariant_witness:
  "timer_inv timer_running \<and>
   timer_inv (fst (handleClient (Some (GetTimeout (Some ''30''))) 2000 timer_running)) \<and>
   timer_inv (fst (loop 61000 61000 timer_running)) \<and>
   timer_inv (fst (handleClient_opt (Some GetOff) 2000 timer_running)) \<and>
   timer_inv (fst (loop_opt 61000 timer_running))"
proof -
  have h: "timer_inv timer_running" by (simp add: timer_inv_def timer_running_def)
  show ?thesis
    using h
      timer_invariant [where s = timer_running and req = "Some (GetTimeout (Some ''30''))"
        and now = 2000 and ?now1.0 = 61000 and ?now2.0 = 61000 and gpo = 0]
      timer_invariant [where s = timer_running and req = "Some GetOff"
        and now = 2000 and ?now1.0 = 61000 and ?now2.0 = 61000 and gpo = 0]
    by simp
qed

section \<open>The safety restart\<close>

lemma moduleStartTime_loop: "moduleStartTime (fst (loop now1 now2 s)) = moduleStartTime s"
  by (simp add: fst_loop)

lemma snd_loop:
  "snd (loop now1 now2 s) =
     (\<not> isLampOn (fst (loop now1 now2 s)) \<and> SAFETY_REBOOT_INTERVAL \<le> now2 - moduleStartTime s)"
  using moduleStartTime_loop [of now1 now2 s] by (simp add: loop_def Let_def)

lemma snd_loop_opt:
  "snd (loop_opt now s) =
     (\<not> isLampOn_opt (fst (loop_opt now s)) \<and> SAFETY_REBOOT_INTERVAL \<le> now - moduleStartTime s \<and>
      SAFETY_CHECK_INTERVAL \<le> now - lastSafetyCheck s)"
  using moduleStartTime_loop [of now now s]
  by (simp add: loop_opt_eq Let_def isLampOn_opt_pin isLampOn_pin)

text \<open>
  Claim C3, as amended.  An iteration of \<^verbatim>\<open>loop\<close> of the recommended sketch restarts
  the device exactly when, after its timer checks, the lamp is off and the time since
  boot, \<open>now2 - moduleStartTime\<close> modulo \<open>2 ^ 32\<close>, is at least 12 hours; how long the
  lamp has been off plays no part.  The optimized sketch restarts exactly when, in
  addition, at least 30 minutes have passed since its previous safety check.  Neither
  restarts in an iteration that ends with the lamp on, and the optimized sketch restarts
  only where the recommended one, at the same state and clock, restarts too.
\<close>

theorem safety_restart_condition:
  "snd (loop now1 now2 s) =
     (\<not> isLampOn (fst (loop now1 now2 s)) \<and> 43200000 \<le> unat (now2 - moduleStartTime s)) \<and>
   snd (loop_opt now s) =
     (\<not> isLampOn_opt (fst (loop_opt now s)) \<and> 43200000 \<le> unat (now - moduleStartTime s) \<and>
      1800000 \<le> unat (now - lastSafetyCheck s)) \<and>
   (isLampOn (fst (loop now1 now2 s)) \<longrightarrow> \<not> snd (loop now1 now2 s)) \<and>
   (isLampOn_opt (fst (loop_opt now s)) \<longrightarrow> \<not> snd (loop_opt now s)) \<and>
   (snd (loop_opt now s) \<longrightarrow> snd (loop now now s))"
proof -
  have opt_lamp: "isLampOn_opt (fst (loop_opt now s)) = isLampOn (fst (loop now now s))"
    by (simp add: loop_opt_eq Let_def isLampOn_opt_pin isLampOn_pin)
  show ?thesis
    by (simp add: snd_loop snd_loop_opt opt_lamp SAFETY_REBOOT_INTERVAL_def
        SAFETY_CHECK_INTERVAL_def word_le_nat_alt)
qed

theorem safety_restart_condition_witness:
  "snd (loop_opt 43200000 lamp_idle) \<and> snd (loop 43200000 43200000 lamp_idle) \<and>
   \<not> isLampOn (fst (loop 43200000 43200000 lamp_idle)) \<and>
   isLampOn (fst (loop 50000000 50000000 (lamp_idle\<lparr>GPO := 0\<rparr>))) \<and>
   \<not> snd (loop 50000000 50000000 (lamp_idle\<lparr>GPO := 0\<rparr>)) \<and>
   isLampOn_opt (fst (loop_opt 50000000 (lamp_idle\<lparr>GPO := 0\<rparr>))) \<and>
   \<not> snd (loop_opt 50000000 (lamp_idle\<lparr>GPO := 0\<rparr>))"
proof -
  have idle: "isLampOn_opt (fst (loop_opt 43200000 lamp_idle)) = False"
    "isLampOn (fst (loop 50000000 50000000 (lamp_idle\<lparr>GPO := 0\<rparr>)))"
    "isLampOn_opt (fst (loop_opt 50000000 (lamp_idle\<lparr>GPO := 0\<rparr>)))"
    "isLampOn (fst (loop 43200000 43200000 lamp_idle)) = False"
    by (simp_all add: loop_opt_eq fst_loop Let_def isLampOn_opt_pin isLampOn_pin lamp_idle_def)
  show ?thesis
    using safety_restart_condition [of 43200000 43200000 lamp_idle 43200000]
      safety_restart_condition [of 50000000 50000000 "lamp_idle\<lparr>GPO := 0\<rparr>" 50000000]
    by (simp add: idle) (simp add: lamp_idle_def)
qed

lemma boot_state:
  "setup_sketch 0 0 = \<lparr>GPO = 32, relayState = False, currentTimeout = 0, timeoutActive = False,
      timeoutStart = 0, moduleStartTime = 0, lastSafetyCheck = 0\<rparr>"
  "setup_opt 0 0 = \<lparr>GPO = 32, relayState = False, currentTimeout = 0, timeoutActive = False,
      timeoutStart = 0, moduleStartTime = 0, lastSafetyCheck = 0\<rparr>"
  by (simp_all add: setup_sketch_def setup_opt_def initial_globals_def digitalWrite_def
      GPIO_SET_HIGH_def write_GPOS_def relayPin_def)

text \<open>
  Claim C3 as stated fails twice.  Booted at clock 0, with the lamp switched on at 1 s
  and off at 11 h 59 min 59 s, the recommended sketch restarts at 12 h, when the lamp has
  been off for one second.  And with the lamp switched on at 1 s, an iteration at 12 h
  and the lamp switched off at 12 h 1 min, the recommended sketch restarts in that
  iteration while the optimized sketch, whose last safety check was at 12 h, does not.
\<close>

theorem safety_restart_counterexample:
  "run [(1000, Some GetOn), (43199000, Some GetOff), (43200000, None)] (setup_sketch 0 0) =
     [(True, False), (False, False), (False, True)] \<and>
   run [(1000, Some GetOn), (43200000, None), (43260000, Some GetOff)] (setup_sketch 0 0) =
     [(True, False), (True, False), (False, True)] \<and>
   run_opt [(1000, Some GetOn), (43200000, None), (43260000, Some GetOff)] (setup_opt 0 0) =
     [(True, False), (True, False), (False, False)]"
  by (simp add: boot_state fst_handleOn fst_handleOff fst_handleOn_opt fst_handleOff_opt
      loop_def loop_opt_def Let_def isLampOn_pin isLampOn_opt_pin setLamp_eq setLamp_opt_eq
      SAFETY_REBOOT_INTERVAL_def SAFETY_CHECK_INTERVAL_def)

end
